theory Spec2Isabelle
  imports Main "HOL-Library.Sublist"
begin

section \<open>The script \<open>get_polymarket_keys.py\<close>\<close>

text \<open>
  The script is a straight line of statements: two progress prints, the construction of a
  \<open>ClobClient\<close>, the call \<open>create_or_derive_api_creds\<close>, and nine more prints that show
  the credentials twice. Its effects are the characters written to standard output and
  the two calls into the client library. Both calls may raise; the script has no
  \<open>try\<close>, so an exception ends the run where it is raised.
\<close>

subsection \<open>Data\<close>

text \<open>
  Modelled from the spec: the class \<open>ApiCreds\<close> of the client library, which the script
  only reads through its attributes \<open>api_key\<close>, \<open>api_secret\<close> and \<open>api_passphrase\<close>; the
  spec's data model gives it as a triplet of strings.
\<close>

record ApiCreds =
  api_key :: string
  api_secret :: string
  api_passphrase :: string

text \<open>
  The client library and the remote venue behind it are not part of the script, so they are
  a parameter: \<open>'e\<close> is the type of the exceptions the library raises, \<open>'c\<close> the type of
  client objects, \<open>'w\<close> the state of the world outside the process (the venue). Each of the
  two entry points the script uses takes the world, returns the new one, and either
  raises (\<open>Inl\<close>) or returns (\<open>Inr\<close>).
\<close>

record ('e, 'c, 'w) py_clob_client =
  ClobClient :: "string \<Rightarrow> int \<Rightarrow> string \<Rightarrow> 'w \<Rightarrow> ('e + 'c) \<times> 'w"
  create_or_derive_api_creds :: "'c \<Rightarrow> 'w \<Rightarrow> ('e + ApiCreds) \<times> 'w"

text \<open>The calls into the library, as the process makes them, with their arguments.\<close>

datatype call =
  Call_ClobClient string int string
| Call_create_or_derive_api_creds

text \<open>The state of a run: what has been written to standard output so far, the library
  calls made so far (oldest first), and the world.\<close>

record 'w process =
  stdout :: string
  calls :: "call list"
  world :: 'w

definition start :: "'w \<Rightarrow> 'w process" where
  "start w = \<lparr>stdout = [], calls = [], world = w\<rparr>"

subsection \<open>The constants of the script\<close>

definition private_key :: string where
  "private_key = ''0x4c114c6fe82b4f9ddd47a9d94d2eb2fe4ad1842a54b8434b4bc50eb9109ca70a''"

definition chain_id :: int where
  "chain_id = 137"

definition host :: string where
  "host = ''https://clob.polymarket.com''"

subsection \<open>Statements\<close>

text \<open>\<open>print(s)\<close> writes \<open>s\<close> and a newline.\<close>

definition print :: "string \<Rightarrow> 'w process \<Rightarrow> 'w process" where
  "print s p = p\<lparr>stdout := stdout p @ s @ ''\<newline>''\<rparr>"

definition call_ClobClient ::
  "('e, 'c, 'w) py_clob_client \<Rightarrow> string \<Rightarrow> int \<Rightarrow> string \<Rightarrow> 'w process
     \<Rightarrow> ('e + 'c) \<times> 'w process" where
  "call_ClobClient lib h n k p =
     (case ClobClient lib h n k (world p) of
        (r, w') \<Rightarrow> (r, p\<lparr>calls := calls p @ [Call_ClobClient h n k], world := w'\<rparr>))"

definition call_create_or_derive_api_creds ::
  "('e, 'c, 'w) py_clob_client \<Rightarrow> 'c \<Rightarrow> 'w process \<Rightarrow> ('e + ApiCreds) \<times> 'w process" where
  "call_create_or_derive_api_creds lib client p =
     (case create_or_derive_api_creds lib client (world p) of
        (r, w') \<Rightarrow> (r, p\<lparr>calls := calls p @ [Call_create_or_derive_api_creds], world := w'\<rparr>))"

text \<open>
  Lines 9 to 12, with the key, the chain id and the endpoint as arguments: construct the
  client, print the second progress line, ask for the credentials. An exception of the
  constructor skips the rest.
\<close>

definition deriveCredentials ::
  "('e, 'c, 'w) py_clob_client \<Rightarrow> string \<Rightarrow> int \<Rightarrow> string \<Rightarrow> 'w process
     \<Rightarrow> ('e + ApiCreds) \<times> 'w process" where
  "deriveCredentials lib signingKey networkId endpoint p =
     (case call_ClobClient lib endpoint networkId signingKey p of
        (Inl e, p1) \<Rightarrow> (Inl e, p1)
      | (Inr client, p1) \<Rightarrow>
          call_create_or_derive_api_creds lib client
            (print ''[*] Deriving API credentials...'' p1))"

text \<open>Lines 15 to 17. The third f-string ends in a newline of its own.\<close>

definition presentCredentials :: "ApiCreds \<Rightarrow> 'w process \<Rightarrow> 'w process" where
  "presentCredentials creds p =
     print (''POLYMARKET_PASSPHRASE='' @ api_passphrase creds @ ''\<newline>'')
       (print (''POLYMARKET_SECRET='' @ api_secret creds)
         (print (''POLYMARKET_API_KEY='' @ api_key creds) p))"

text \<open>Lines 20 to 22: the same three fields again, the third without the extra newline.\<close>

definition presentCredentials_env :: "ApiCreds \<Rightarrow> 'w process \<Rightarrow> 'w process" where
  "presentCredentials_env creds p =
     print (''POLYMARKET_PASSPHRASE='' @ api_passphrase creds)
       (print (''POLYMARKET_SECRET='' @ api_secret creds)
         (print (''POLYMARKET_API_KEY='' @ api_key creds) p))"

text \<open>The module body. The result is \<open>Inl e\<close> when the run ends in the uncaught
  exception \<open>e\<close> and \<open>Inr ()\<close> when it reaches the end of the file.\<close>

definition main :: "('e, 'c, 'w) py_clob_client \<Rightarrow> 'w \<Rightarrow> ('e + unit) \<times> 'w process" where
  "main lib w =
     (case deriveCredentials lib private_key chain_id host
             (print ''[*] Connecting to Polymarket CLOB...'' (start w)) of
        (Inl e, p) \<Rightarrow> (Inl e, p)
      | (Inr creds, p) \<Rightarrow>
          (Inr (),
           presentCredentials_env creds
             (print ''Update your .env.local file with:''
               (presentCredentials creds
                 (print ''\<newline>SUCCESS! Your Polymarket CLOB credentials:\<newline>'' p)))))"

text \<open>What the interpreter does with the result: an uncaught exception is reported on
  standard error and the process ends with status 1; otherwise the status is 0.\<close>

definition exit_status :: "'e + unit \<Rightarrow> nat" where
  "exit_status r = (case r of Inl e \<Rightarrow> 1 | Inr u \<Rightarrow> 0)"


subsection \<open>Observations on a run\<close>

text \<open>The lines of a text, split at newlines as \<open>str.splitlines\<close> does for \<open>\\n\<close>.\<close>

fun split_lines :: "string \<Rightarrow> string \<Rightarrow> string list" where
  "split_lines cur [] = (if cur = [] then [] else [cur])"
| "split_lines cur (c # cs) =
     (if c = CHR ''\<newline>'' then cur # split_lines [] cs else split_lines (cur @ [c]) cs)"

definition lines_of :: "string \<Rightarrow> string list" where
  "lines_of s = split_lines [] s"

definition unlines :: "string list \<Rightarrow> string" where
  "unlines ls = concat (map (\<lambda>l. l @ ''\<newline>'') ls)"

definition derive_calls :: "'w process \<Rightarrow> nat" where
  "derive_calls p = count_list (calls p) Call_create_or_derive_api_creds"



subsection \<open>The venue's create-or-derive semantics\<close>

text \<open>
  The assumption under which the spec speaks of idempotence, as a property of the library
  and the venue: every client object carries the signing key it was constructed with
  (\<open>signer\<close>), the venue keeps a credential set per signing key (\<open>stored\<close>), constructing a
  client does not change what is stored, and a derive call that returns hands out the set
  that is stored for the client's key afterwards, which is the one that was stored before
  if there was one.
\<close>

definition create_or_derive_semantics ::
  "('e, 'c, 'w) py_clob_client \<Rightarrow> ('c \<Rightarrow> string) \<Rightarrow> ('w \<Rightarrow> string \<rightharpoonup> ApiCreds) \<Rightarrow> bool" where
  "create_or_derive_semantics lib signer stored \<longleftrightarrow>
     (\<forall>h n k w client w'. ClobClient lib h n k w = (Inr client, w') \<longrightarrow>
        signer client = k \<and> stored w' = stored w) \<and>
     (\<forall>client w creds w'. create_or_derive_api_creds lib client w = (Inr creds, w') \<longrightarrow>
        stored w' (signer client) = Some creds \<and>
        (\<forall>old. stored w (signer client) = Some old \<longrightarrow> old = creds))"

subsection \<open>Mock libraries\<close>

text \<open>A venue that answers only at the public endpoint on chain 137 and then returns a
  fixed credential set.\<close>

definition fixed_venue :: "ApiCreds \<Rightarrow> (string, string, unit) py_clob_client" where
  "fixed_venue creds =
     \<lparr>ClobClient = (\<lambda>h n k w.
        if h = ''https://clob.polymarket.com'' \<and> n = 137 then (Inr k, w)
        else (Inl ''NetworkError'', w)),
      create_or_derive_api_creds = (\<lambda>client w. (Inr creds, w))\<rparr>"

text \<open>A venue that rejects the signing key when the credentials are asked for.\<close>

definition rejecting_venue :: "(string, string, unit) py_clob_client" where
  "rejecting_venue =
     \<lparr>ClobClient = (\<lambda>h n k w. (Inr k, w)),
      create_or_derive_api_creds = (\<lambda>client w. (Inl ''AuthenticationError'', w))\<rparr>"

text \<open>A library whose constructor already refuses the key.\<close>

definition refusing_client :: "(string, string, unit) py_clob_client" where
  "refusing_client =
     \<lparr>ClobClient = (\<lambda>h n k w. (Inl ''AuthenticationError'', w)),
      create_or_derive_api_creds = (\<lambda>client w. (Inl ''AuthenticationError'', w))\<rparr>"

text \<open>A venue with a store: a key seen before gets its stored set, a new key gets a set
  numbered by the size of the store, which is then stored. The client object is the
  key.\<close>

definition issue :: "nat \<Rightarrow> ApiCreds" where
  "issue n =
     \<lparr>api_key = ''K'' @ replicate n (CHR ''i''),
      api_secret = ''S'' @ replicate n (CHR ''i''),
      api_passphrase = ''P'' @ replicate n (CHR ''i'')\<rparr>"

definition store_venue :: "(string, string, (string \<times> ApiCreds) list) py_clob_client" where
  "store_venue =
     \<lparr>ClobClient = (\<lambda>h n k w. (Inr k, w)),
      create_or_derive_api_creds = (\<lambda>client w.
        case map_of w client of
          Some creds \<Rightarrow> (Inr creds, w)
        | None \<Rightarrow> (Inr (issue (Suc (length w))), (client, issue (Suc (length w))) # w))\<rparr>"

definition K1S1P1 :: ApiCreds where
  "K1S1P1 = \<lparr>api_key = ''K1'', api_secret = ''S1'', api_passphrase = ''P1''\<rparr>"


text \<open>A credential set none of whose fields contains the signing key of the script.\<close>

definition key_free :: "ApiCreds \<Rightarrow> bool" where
  "key_free creds \<longleftrightarrow>
     \<not> sublist private_key (api_key creds) \<and>
     \<not> sublist private_key (api_secret creds) \<and>
     \<not> sublist private_key (api_passphrase creds)"

subsection \<open>Unfolding a run\<close>

lemma main_ctor_raises:
  assumes "ClobClient lib host chain_id private_key w = (Inl e, w')"
  shows "main lib w =
    (Inl e, \<lparr>stdout = ''[*] Connecting to Polymarket CLOB...\<newline>'',
             calls = [Call_ClobClient host chain_id private_key],
             world = w'\<rparr>)"
  using assms
  by (simp add: main_def deriveCredentials_def call_ClobClient_def print_def start_def)

lemma main_derive_raises:
  assumes "ClobClient lib host chain_id private_key w = (Inr client, w')"
    and "create_or_derive_api_creds lib client w' = (Inl e, w'')"
  shows "main lib w =
    (Inl e, \<lparr>stdout = ''[*] Connecting to Polymarket CLOB...\<newline>[*] Deriving API credentials...\<newline>'',
             calls = [Call_ClobClient host chain_id private_key, Call_create_or_derive_api_creds],
             world = w''\<rparr>)"
  using assms
  by (simp add: main_def deriveCredentials_def call_ClobClient_def
      call_create_or_derive_api_creds_def print_def start_def)

lemma main_returns:
  assumes "ClobClient lib host chain_id private_key w = (Inr client, w')"
    and "create_or_derive_api_creds lib client w' = (Inr creds, w'')"
  shows "main lib w =
    (Inr (),
     \<lparr>stdout = ''[*] Connecting to Polymarket CLOB...\<newline>[*] Deriving API credentials...\<newline>''
          @ ''\<newline>SUCCESS! Your Polymarket CLOB credentials:\<newline>\<newline>''
          @ ''POLYMARKET_API_KEY='' @ api_key creds @ ''\<newline>''
          @ ''POLYMARKET_SECRET='' @ api_secret creds @ ''\<newline>''
          @ ''POLYMARKET_PASSPHRASE='' @ api_passphrase creds @ ''\<newline>\<newline>''
          @ ''Update your .env.local file with:\<newline>''
          @ ''POLYMARKET_API_KEY='' @ api_key creds @ ''\<newline>''
          @ ''POLYMARKET_SECRET='' @ api_secret creds @ ''\<newline>''
          @ ''POLYMARKET_PASSPHRASE='' @ api_passphrase creds @ ''\<newline>'',
      calls = [Call_ClobClient host chain_id private_key, Call_create_or_derive_api_creds],
      world = w''\<rparr>)"
  using assms
  by (simp add: main_def deriveCredentials_def call_ClobClient_def
      call_create_or_derive_api_creds_def presentCredentials_def presentCredentials_env_def
      print_def start_def)

subsection \<open>Lines\<close>



lemma unlines_Nil: "unlines [] = []"
  by (simp add: unlines_def)


lemma split_lines_sublist:
  "l \<in> set (split_lines cur s) \<Longrightarrow> sublist l (cur @ s)"
proof (induction s arbitrary: cur)
  case Nil
  then show ?case by (auto split: if_splits)
next
  case (Cons c cs)
  show ?case
  proof (cases "c = CHR ''\<newline>''")
    case True
    with Cons.prems have "l = cur \<or> l \<in> set (split_lines [] cs)" by simp
    then show ?thesis
    proof
      assume "l = cur"
      then show ?thesis by simp
    next
      assume "l \<in> set (split_lines [] cs)"
      then have "sublist l cs" using Cons.IH [of "[]"] by simp
      then obtain ps ss where "cs = ps @ l @ ss" by (auto simp: sublist_def)
      then have "cur @ c # cs = (cur @ c # ps) @ l @ ss" by simp
      then show ?thesis unfolding sublist_def by blast
    qed
  next
    case False
    with Cons.prems have "l \<in> set (split_lines (cur @ [c]) cs)" by simp
    then have "sublist l ((cur @ [c]) @ cs)" by (rule Cons.IH)
    then show ?thesis by simp
  qed
qed

lemma lines_of_sublist: "l \<in> set (lines_of s) \<Longrightarrow> sublist l s"
  using split_lines_sublist [of l "[]" s] by (simp add: lines_of_def)


lemma deriveCredentials_returnsD:
  assumes "deriveCredentials lib k n h p = (Inr creds, p')"
  shows "\<exists>client w1. ClobClient lib h n k (world p) = (Inr client, w1) \<and>
           create_or_derive_api_creds lib client w1 = (Inr creds, world p')"
  using assms
  by (auto simp: deriveCredentials_def call_ClobClient_def call_create_or_derive_api_creds_def
      print_def split: prod.splits sum.splits)

subsection \<open>Where a key can occur in a text\<close>

lemma sublist_skip_literal:
  assumes "key \<noteq> []" and "hd key \<notin> set a" and "sublist key (a @ b)"
  shows "sublist key b"
proof -
  from assms(3) consider "sublist key a" | "sublist key b"
    | k1 k2 where "key = k1 @ k2" "suffix k1 a" "prefix k2 b"
    by (auto simp: sublist_append)
  then show ?thesis
  proof cases
    case 1
    then have "set key \<subseteq> set a" by (rule set_mono_sublist)
    with assms(1,2) show ?thesis by (cases key) auto
  next
    case 2
    then show ?thesis .
  next
    case 3
    show ?thesis
    proof (cases k1)
      case Nil
      with 3 show ?thesis by simp
    next
      case (Cons x xs)
      with 3(1) have "hd key = x" by simp
      moreover from 3(2) Cons have "x \<in> set a" by (auto simp: suffix_def)
      ultimately show ?thesis using assms(2) by simp
    qed
  qed
qed

lemma sublist_skip_field:
  assumes "c \<notin> set key" and "\<not> sublist key f" and "sublist key (f @ c # rest)"
  shows "sublist key rest"
proof -
  from assms(3) consider "sublist key f" | "sublist key (c # rest)"
    | k1 k2 where "key = k1 @ k2" "suffix k1 f" "prefix k2 (c # rest)"
    by (auto simp: sublist_append)
  then show ?thesis
  proof cases
    case 1
    with assms(2) show ?thesis by simp
  next
    case 2
    then have "prefix key (c # rest) \<or> sublist key rest" by (simp add: sublist_Cons_right)
    then show ?thesis
    proof
      assume "prefix key (c # rest)"
      with assms(1) have "key = []" by (cases key) auto
      then show ?thesis by simp
    qed
  next
    case 3
    show ?thesis
    proof (cases k2)
      case Nil
      with 3 have "sublist key f" by simp
      with assms(2) show ?thesis by simp
    next
      case (Cons x xs)
      with 3(3) have "x = c" by simp
      with 3(1) Cons assms(1) show ?thesis by simp
    qed
  qed
qed

lemma sublist_skip_literal_field:
  assumes "key \<noteq> []" and "hd key \<notin> set a" and "c \<notin> set key" and "\<not> sublist key f"
    and "sublist key (a @ f @ c # rest)"
  shows "sublist key rest"
  using assms sublist_skip_literal sublist_skip_field by metis

lemma private_key_facts:
  "private_key \<noteq> []" "hd private_key = CHR ''0''" "CHR ''\<newline>'' \<notin> set private_key"
  by (simp_all add: private_key_def)

lemma no_key_in_report:
  assumes k: "\<not> sublist private_key (api_key creds)"
    and s: "\<not> sublist private_key (api_secret creds)"
    and p: "\<not> sublist private_key (api_passphrase creds)"
  shows "\<not> sublist private_key
     (''[*] Connecting to Polymarket CLOB...\<newline>[*] Deriving API credentials...\<newline>\<newline>SUCCESS! Your Polymarket CLOB credentials:\<newline>\<newline>POLYMARKET_API_KEY=''
       @ api_key creds @ CHR ''\<newline>'' #
      ''POLYMARKET_SECRET='' @ api_secret creds @ CHR ''\<newline>'' #
      ''POLYMARKET_PASSPHRASE='' @ api_passphrase creds @ CHR ''\<newline>'' #
      ''\<newline>Update your .env.local file with:\<newline>POLYMARKET_API_KEY=''
       @ api_key creds @ CHR ''\<newline>'' #
      ''POLYMARKET_SECRET='' @ api_secret creds @ CHR ''\<newline>'' #
      ''POLYMARKET_PASSPHRASE='' @ api_passphrase creds @ CHR ''\<newline>'' # [])"
proof
  note f = private_key_facts
  assume "sublist private_key
     (''[*] Connecting to Polymarket CLOB...\<newline>[*] Deriving API credentials...\<newline>\<newline>SUCCESS! Your Polymarket CLOB credentials:\<newline>\<newline>POLYMARKET_API_KEY=''
       @ api_key creds @ CHR ''\<newline>'' #
      ''POLYMARKET_SECRET='' @ api_secret creds @ CHR ''\<newline>'' #
      ''POLYMARKET_PASSPHRASE='' @ api_passphrase creds @ CHR ''\<newline>'' #
      ''\<newline>Update your .env.local file with:\<newline>POLYMARKET_API_KEY=''
       @ api_key creds @ CHR ''\<newline>'' #
      ''POLYMARKET_SECRET='' @ api_secret creds @ CHR ''\<newline>'' #
      ''POLYMARKET_PASSPHRASE='' @ api_passphrase creds @ CHR ''\<newline>'' # [])"
  then have "sublist private_key
     (''POLYMARKET_SECRET='' @ api_secret creds @ CHR ''\<newline>'' #
      ''POLYMARKET_PASSPHRASE='' @ api_passphrase creds @ CHR ''\<newline>'' #
      ''\<newline>Update your .env.local file with:\<newline>POLYMARKET_API_KEY=''
       @ api_key creds @ CHR ''\<newline>'' #
      ''POLYMARKET_SECRET='' @ api_secret creds @ CHR ''\<newline>'' #
      ''POLYMARKET_PASSPHRASE='' @ api_passphrase creds @ CHR ''\<newline>'' # [])"
    by (rule sublist_skip_literal_field [OF f(1) _ f(3) k, rotated]) (simp add: f(2))
  then have "sublist private_key
     (''POLYMARKET_PASSPHRASE='' @ api_passphrase creds @ CHR ''\<newline>'' #
      ''\<newline>Update your .env.local file with:\<newline>POLYMARKET_API_KEY=''
       @ api_key creds @ CHR ''\<newline>'' #
      ''POLYMARKET_SECRET='' @ api_secret creds @ CHR ''\<newline>'' #
      ''POLYMARKET_PASSPHRASE='' @ api_passphrase creds @ CHR ''\<newline>'' # [])"
    by (rule sublist_skip_literal_field [OF f(1) _ f(3) s, rotated]) (simp add: f(2))
  then have "sublist private_key
     (''\<newline>Update your .env.local file with:\<newline>POLYMARKET_API_KEY=''
       @ api_key creds @ CHR ''\<newline>'' #
      ''POLYMARKET_SECRET='' @ api_secret creds @ CHR ''\<newline>'' #
      ''POLYMARKET_PASSPHRASE='' @ api_passphrase creds @ CHR ''\<newline>'' # [])"
    by (rule sublist_skip_literal_field [OF f(1) _ f(3) p, rotated]) (simp add: f(2))
  then have "sublist private_key
     (''POLYMARKET_SECRET='' @ api_secret creds @ CHR ''\<newline>'' #
      ''POLYMARKET_PASSPHRASE='' @ api_passphrase creds @ CHR ''\<newline>'' # [])"
    by (rule sublist_skip_literal_field [OF f(1) _ f(3) k, rotated]) (simp add: f(2))
  then have "sublist private_key
     (''POLYMARKET_PASSPHRASE='' @ api_passphrase creds @ CHR ''\<newline>'' # [])"
    by (rule sublist_skip_literal_field [OF f(1) _ f(3) s, rotated]) (simp add: f(2))
  then have "sublist private_key []"
    by (rule sublist_skip_literal_field [OF f(1) _ f(3) p, rotated]) (simp add: f(2))
  with f(1) show False by simp
qed

lemma no_key_without_zero:
  assumes "CHR ''0'' \<notin> set s"
  shows "\<not> sublist private_key s"
proof
  assume "sublist private_key s"
  then have "set private_key \<subseteq> set s" by (rule set_mono_sublist)
  moreover have "CHR ''0'' \<in> set private_key" by (simp add: private_key_def)
  ultimately show False using assms by blast
qed

lemma no_key_in_stdout:
  assumes "\<forall>client w' creds w''.
      ClobClient lib host chain_id private_key w = (Inr client, w') \<and>
      create_or_derive_api_creds lib client w' = (Inr creds, w'') \<longrightarrow> key_free creds"
  shows "\<not> sublist private_key (stdout (snd (main lib w)))"
proof -
  obtain r w' where c: "ClobClient lib host chain_id private_key w = (r, w')"
    by (cases "ClobClient lib host chain_id private_key w")
  show ?thesis
  proof (cases r)
    case (Inl e)
    with c show ?thesis by (simp add: main_ctor_raises no_key_without_zero)
  next
    case (Inr client)
    obtain r' w'' where d: "create_or_derive_api_creds lib client w' = (r', w'')"
      by (cases "create_or_derive_api_creds lib client w'")
    show ?thesis
    proof (cases r')
      case (Inl e)
      with c d Inr have "stdout (snd (main lib w)) =
          ''[*] Connecting to Polymarket CLOB...\<newline>[*] Deriving API credentials...\<newline>''"
        by (simp add: main_derive_raises)
      then show ?thesis by (simp add: no_key_without_zero)
    next
      case (Inr creds)
      with c d \<open>r = Inr client\<close> assms have "key_free creds" by blast
      then have "\<not> sublist private_key (api_key creds)"
        "\<not> sublist private_key (api_secret creds)"
        "\<not> sublist private_key (api_passphrase creds)"
        by (simp_all add: key_free_def)
      from no_key_in_report [OF this] c d Inr \<open>r = Inr client\<close>
      show ?thesis by (simp add: main_returns)
    qed
  qed
qed

section \<open>The claims\<close>

subsection \<open>C1: the first credential block\<close>



subsection \<open>C2: the credentials are shown twice\<close>



subsection \<open>C3: a failed derivation shows no credentials\<close>

text \<open>
  C3: if the construction of the client or the derive call raises \<open>e\<close>, the run ends
  in \<open>e\<close> at that point. Standard output then holds the first progress line, or the two
  progress lines, and nothing else: no character \<open>=\<close>, and no line that contains
  \<open>POLYMARKET_\<close>, so no credential line, whole or partial.
\<close>

theorem failed_derivation_aborts_run:
  assumes "ClobClient lib host chain_id private_key w = (Inl e, w1) \<or>
           (ClobClient lib host chain_id private_key w = (Inr client, w1) \<and>
            create_or_derive_api_creds lib client w1 = (Inl e, w2))"
  shows "fst (main lib w) = Inl e
     \<and> (stdout (snd (main lib w)) = ''[*] Connecting to Polymarket CLOB...\<newline>'' \<or>
        stdout (snd (main lib w)) =
          ''[*] Connecting to Polymarket CLOB...\<newline>[*] Deriving API credentials...\<newline>'')
     \<and> CHR ''='' \<notin> set (stdout (snd (main lib w)))
     \<and> (\<forall>l\<in>set (lines_of (stdout (snd (main lib w)))). \<not> sublist ''POLYMARKET_'' l)"
  using assms
proof
  assume "ClobClient lib host chain_id private_key w = (Inl e, w1)"
  then show ?thesis
    by (simp add: main_ctor_raises lines_of_def sublist_code)
next
  assume "ClobClient lib host chain_id private_key w = (Inr client, w1) \<and>
          create_or_derive_api_creds lib client w1 = (Inl e, w2)"
  then show ?thesis
    by (simp add: main_derive_raises lines_of_def sublist_code)
qed

text \<open>
  The statement of C3 at a venue that rejects the key at the derive call.
\<close>

theorem failed_derivation_aborts_run_witness:
  "(ClobClient rejecting_venue host chain_id private_key () = (Inr private_key, ()) \<and>
    create_or_derive_api_creds rejecting_venue private_key () = (Inl ''AuthenticationError'', ()))
   \<and> fst (main rejecting_venue ()) = Inl ''AuthenticationError''
   \<and> CHR ''='' \<notin> set (stdout (snd (main rejecting_venue ())))
   \<and> \<not> list_ex (sublist ''POLYMARKET_'') (lines_of (stdout (snd (main rejecting_venue ()))))"
proof -
  have h: "ClobClient rejecting_venue host chain_id private_key () = (Inr private_key, ()) \<and>
    create_or_derive_api_creds rejecting_venue private_key () = (Inl ''AuthenticationError'', ())"
    by (simp add: rejecting_venue_def)
  from h have "ClobClient rejecting_venue host chain_id private_key () = (Inl ''AuthenticationError'', ()) \<or>
           (ClobClient rejecting_venue host chain_id private_key () = (Inr private_key, ()) \<and>
            create_or_derive_api_creds rejecting_venue private_key () = (Inl ''AuthenticationError'', ()))"
    by blast
  from failed_derivation_aborts_run [OF this] h show ?thesis
    unfolding list_ex_iff by blast
qed

subsection \<open>C5: a rejected key\<close>




subsection \<open>C6: end to end\<close>

text \<open>
  C6: if the library, asked for a client at \<open>https://clob.polymarket.com\<close> on chain 137
  with the script's key, returns one, and the derive call on it returns
  \<open>{api_key: K1, api_secret: S1, api_passphrase: P1}\<close>, then the run constructs the
  client with exactly that endpoint and chain id, makes the derive call, prints the
  three values as \<open>KEY=VALUE\<close> lines (twice, among the header lines), and ends with
  exit status 0.
\<close>

theorem end_to_end:
  assumes "ClobClient lib ''https://clob.polymarket.com'' 137 private_key w = (Inr client, w')"
    and "create_or_derive_api_creds lib client w' =
           (Inr \<lparr>api_key = ''K1'', api_secret = ''S1'', api_passphrase = ''P1''\<rparr>, w'')"
  shows "main lib w =
      (Inr (),
       \<lparr>stdout = ''[*] Connecting to Polymarket CLOB...\<newline>[*] Deriving API credentials...\<newline>\<newline>SUCCESS! Your Polymarket CLOB credentials:\<newline>\<newline>POLYMARKET_API_KEY=K1\<newline>POLYMARKET_SECRET=S1\<newline>POLYMARKET_PASSPHRASE=P1\<newline>\<newline>Update your .env.local file with:\<newline>POLYMARKET_API_KEY=K1\<newline>POLYMARKET_SECRET=S1\<newline>POLYMARKET_PASSPHRASE=P1\<newline>'',
        calls = [Call_ClobClient ''https://clob.polymarket.com'' 137 private_key,
                 Call_create_or_derive_api_creds],
        world = w''\<rparr>)
     \<and> exit_status (fst (main lib w)) = 0
     \<and> lines_of (stdout (snd (main lib w))) =
        [''[*] Connecting to Polymarket CLOB...'', ''[*] Deriving API credentials...'', '''',
         ''SUCCESS! Your Polymarket CLOB credentials:'', '''',
         ''POLYMARKET_API_KEY=K1'', ''POLYMARKET_SECRET=S1'', ''POLYMARKET_PASSPHRASE=P1'',
         '''', ''Update your .env.local file with:'',
         ''POLYMARKET_API_KEY=K1'', ''POLYMARKET_SECRET=S1'', ''POLYMARKET_PASSPHRASE=P1'']"
proof -
  have c: "ClobClient lib host chain_id private_key w = (Inr client, w')"
    using assms(1) by (simp add: host_def chain_id_def)
  show ?thesis
    by (simp add: main_returns [OF c assms(2)] exit_status_def lines_of_def host_def chain_id_def)
qed

text \<open>
  The statement of C6 at a venue that answers only at that endpoint and chain id.
\<close>

theorem end_to_end_witness:
  "ClobClient (fixed_venue K1S1P1) ''https://clob.polymarket.com'' 137 private_key ()
     = (Inr private_key, ())
   \<and> create_or_derive_api_creds (fixed_venue K1S1P1) private_key () =
       (Inr \<lparr>api_key = ''K1'', api_secret = ''S1'', api_passphrase = ''P1''\<rparr>, ())
   \<and> exit_status (fst (main (fixed_venue K1S1P1) ())) = 0
   \<and> lines_of (stdout (snd (main (fixed_venue K1S1P1) ()))) =
        [''[*] Connecting to Polymarket CLOB...'', ''[*] Deriving API credentials...'', '''',
         ''SUCCESS! Your Polymarket CLOB credentials:'', '''',
         ''POLYMARKET_API_KEY=K1'', ''POLYMARKET_SECRET=S1'', ''POLYMARKET_PASSPHRASE=P1'',
         '''', ''Update your .env.local file with:'',
         ''POLYMARKET_API_KEY=K1'', ''POLYMARKET_SECRET=S1'', ''POLYMARKET_PASSPHRASE=P1'']"
proof -
  have h1: "ClobClient (fixed_venue K1S1P1) ''https://clob.polymarket.com'' 137 private_key ()
     = (Inr private_key, ())"
    by (simp add: fixed_venue_def)
  have h2: "create_or_derive_api_creds (fixed_venue K1S1P1) private_key () =
       (Inr \<lparr>api_key = ''K1'', api_secret = ''S1'', api_passphrase = ''P1''\<rparr>, ())"
    by (simp add: fixed_venue_def K1S1P1_def)
  from end_to_end [OF h1 h2] h1 h2 show ?thesis by blast
qed

subsection \<open>C7: the number of derive calls\<close>

text \<open>
  C7, as stated, fails: when the constructor of the client raises, the run ends at
  line 9 and makes no derive call at all.
\<close>

theorem single_derive_call_counterexample:
  "\<not> (derive_calls (snd (main refusing_client ())) = 1)"
proof -
  have "main refusing_client () =
    (Inl ''AuthenticationError'',
     \<lparr>stdout = ''[*] Connecting to Polymarket CLOB...\<newline>'',
      calls = [Call_ClobClient host chain_id private_key],
      world = ()\<rparr>)"
    by (rule main_ctor_raises) (simp add: refusing_client_def)
  then show ?thesis by (simp add: derive_calls_def)
qed

text \<open>
  C7, amended: every run constructs the client once and makes at most one derive call;
  it makes exactly one whenever the construction of the client returns, whether that
  call then returns or raises (a failed call is not repeated), and none when the
  construction raises.
\<close>

theorem at_most_one_derive_call:
  "derive_calls (snd (main lib w)) \<le> 1
   \<and> count_list (calls (snd (main lib w))) (Call_ClobClient host chain_id private_key) = 1
   \<and> ((\<exists>client w'. ClobClient lib host chain_id private_key w = (Inr client, w'))
        \<longrightarrow> derive_calls (snd (main lib w)) = 1)
   \<and> ((\<exists>e w'. ClobClient lib host chain_id private_key w = (Inl e, w'))
        \<longrightarrow> derive_calls (snd (main lib w)) = 0)"
proof -
  obtain r w' where c: "ClobClient lib host chain_id private_key w = (r, w')"
    by (cases "ClobClient lib host chain_id private_key w")
  show ?thesis
  proof (cases r)
    case (Inl e)
    with c show ?thesis by (simp add: main_ctor_raises derive_calls_def)
  next
    case (Inr client)
    obtain r' w'' where d: "create_or_derive_api_creds lib client w' = (r', w'')"
      by (cases "create_or_derive_api_creds lib client w'")
    show ?thesis
    proof (cases r')
      case (Inl e)
      with c d Inr have "main lib w =
        (Inl e, \<lparr>stdout = ''[*] Connecting to Polymarket CLOB...\<newline>[*] Deriving API credentials...\<newline>'',
             calls = [Call_ClobClient host chain_id private_key, Call_create_or_derive_api_creds],
             world = w''\<rparr>)"
        by (simp add: main_derive_raises)
      with c Inr show ?thesis by (simp add: derive_calls_def)
    next
      case (Inr creds)
      with c d \<open>r = Inr client\<close> have "calls (snd (main lib w)) =
          [Call_ClobClient host chain_id private_key, Call_create_or_derive_api_creds]"
        by (simp add: main_returns)
      with c \<open>r = Inr client\<close> show ?thesis by (simp add: derive_calls_def)
    qed
  qed
qed

text \<open>
  The amended statement of C7 at a venue whose derive call fails: one call, no retry.
\<close>

theorem at_most_one_derive_call_witness:
  "(\<exists>client w'. ClobClient rejecting_venue host chain_id private_key () = (Inr client, w'))
   \<and> derive_calls (snd (main rejecting_venue ())) = 1
   \<and> fst (main rejecting_venue ()) = Inl ''AuthenticationError''"
proof -
  have h: "\<exists>client w'. ClobClient rejecting_venue host chain_id private_key () = (Inr client, w')"
    by (simp add: rejecting_venue_def)
  have "main rejecting_venue () =
    (Inl ''AuthenticationError'',
     \<lparr>stdout = ''[*] Connecting to Polymarket CLOB...\<newline>[*] Deriving API credentials...\<newline>'',
      calls = [Call_ClobClient host chain_id private_key, Call_create_or_derive_api_creds],
      world = ()\<rparr>)"
    by (rule main_derive_raises [of rejecting_venue "()" private_key "()"])
      (simp_all add: rejecting_venue_def)
  then have f: "fst (main rejecting_venue ()) = Inl ''AuthenticationError''" by simp
  from at_most_one_derive_call [of rejecting_venue "()"] h f show ?thesis by blast
qed

subsection \<open>C8: idempotence over a create-or-derive venue\<close>

text \<open>
  C8: over a library and venue with create-or-derive semantics, two calls of
  \<open>deriveCredentials\<close> with the same signing key, one after the other, that both return,
  return the same credential set.
\<close>

theorem deriveCredentials_idempotent:
  assumes "create_or_derive_semantics lib signer stored"
    and "deriveCredentials lib k n h p0 = (Inr c1, p1)"
    and "deriveCredentials lib k n h p1 = (Inr c2, p2)"
  shows "c1 = c2"
proof -
  from deriveCredentials_returnsD [OF assms(2)] obtain cl1 w1 where
    a1: "ClobClient lib h n k (world p0) = (Inr cl1, w1)" and
    a2: "create_or_derive_api_creds lib cl1 w1 = (Inr c1, world p1)" by blast
  from deriveCredentials_returnsD [OF assms(3)] obtain cl2 w2 where
    b1: "ClobClient lib h n k (world p1) = (Inr cl2, w2)" and
    b2: "create_or_derive_api_creds lib cl2 w2 = (Inr c2, world p2)" by blast
  from assms(1) a1 have "signer cl1 = k"
    unfolding create_or_derive_semantics_def by blast
  with assms(1) a2 have s1: "stored (world p1) k = Some c1"
    unfolding create_or_derive_semantics_def by blast
  from assms(1) b1 have k2: "signer cl2 = k" and "stored w2 = stored (world p1)"
    unfolding create_or_derive_semantics_def by blast+
  with s1 have "stored w2 (signer cl2) = Some c1" by simp
  with assms(1) b2 show "c1 = c2"
    unfolding create_or_derive_semantics_def by blast
qed

text \<open>
  The statement of C8 at the venue with a store, starting from the empty store: both
  calls return, and both return the set issued by the first.
\<close>

theorem deriveCredentials_idempotent_witness:
  "create_or_derive_semantics store_venue (\<lambda>client. client) map_of
   \<and> fst (deriveCredentials store_venue private_key chain_id host (start [])) = Inr (issue 1)
   \<and> fst (deriveCredentials store_venue private_key chain_id host
            (snd (deriveCredentials store_venue private_key chain_id host (start []))))
       = Inr (issue 1)"
proof -
  let ?p1 = "snd (deriveCredentials store_venue private_key chain_id host (start []))"
  let ?p2 = "snd (deriveCredentials store_venue private_key chain_id host ?p1)"
  have s: "create_or_derive_semantics store_venue (\<lambda>client. client) map_of"
    by (auto simp: create_or_derive_semantics_def store_venue_def split: option.splits)
  have e1: "fst (deriveCredentials store_venue private_key chain_id host (start [])) = Inr (issue 1)"
    by (simp add: deriveCredentials_def call_ClobClient_def call_create_or_derive_api_creds_def
        print_def start_def store_venue_def)
  then have d1: "deriveCredentials store_venue private_key chain_id host (start [])
      = (Inr (issue 1), ?p1)"
    by (simp add: prod_eq_iff)
  have "\<exists>c2. fst (deriveCredentials store_venue private_key chain_id host ?p1) = Inr c2"
    by (simp add: deriveCredentials_def call_ClobClient_def call_create_or_derive_api_creds_def
        print_def start_def store_venue_def)
  then obtain c2 where
    e2: "fst (deriveCredentials store_venue private_key chain_id host ?p1) = Inr c2" ..
  then have d2: "deriveCredentials store_venue private_key chain_id host ?p1 = (Inr c2, ?p2)"
    by (simp add: prod_eq_iff)
  from deriveCredentials_idempotent [OF s d1 d2] have "c2 = issue 1" by simp
  with s e1 e2 show ?thesis by simp
qed

subsection \<open>C9: the signing key is not printed\<close>

text \<open>
  C9: in every run, failed or successful, if the credential set the venue returns (when
  it returns one) has no field that contains the signing key, then the signing key
  occurs nowhere in standard output, and so in none of its lines. Standard output is
  the only thing the script writes.
\<close>

theorem signing_key_not_printed:
  assumes "\<forall>client w' creds w''.
      ClobClient lib host chain_id private_key w = (Inr client, w') \<and>
      create_or_derive_api_creds lib client w' = (Inr creds, w'') \<longrightarrow> key_free creds"
  shows "\<not> sublist private_key (stdout (snd (main lib w)))
     \<and> (\<forall>l\<in>set (lines_of (stdout (snd (main lib w)))). \<not> sublist private_key l)"
proof (intro conjI ballI)
  show n: "\<not> sublist private_key (stdout (snd (main lib w)))"
    using assms by (rule no_key_in_stdout)
  fix l assume "l \<in> set (lines_of (stdout (snd (main lib w))))"
  then have "sublist l (stdout (snd (main lib w)))" by (rule lines_of_sublist)
  with n show "\<not> sublist private_key l" by (blast intro: sublist_order.order_trans)
qed

text \<open>
  The statement of C9 at the venue that returns \<open>{K1, S1, P1}\<close>.
\<close>

theorem signing_key_not_printed_witness:
  "ClobClient (fixed_venue K1S1P1) host chain_id private_key () = (Inr private_key, ())
   \<and> create_or_derive_api_creds (fixed_venue K1S1P1) private_key () = (Inr K1S1P1, ())
   \<and> key_free K1S1P1
   \<and> fst (main (fixed_venue K1S1P1) ()) = Inr ()
   \<and> \<not> sublist private_key (stdout (snd (main (fixed_venue K1S1P1) ())))
   \<and> \<not> list_ex (sublist private_key) (lines_of (stdout (snd (main (fixed_venue K1S1P1) ()))))"
proof -
  have h1: "ClobClient (fixed_venue K1S1P1) host chain_id private_key () = (Inr private_key, ())"
    by (simp add: fixed_venue_def host_def chain_id_def)
  have h2: "create_or_derive_api_creds (fixed_venue K1S1P1) private_key () = (Inr K1S1P1, ())"
    by (simp add: fixed_venue_def)
  have kf: "key_free K1S1P1"
    by (simp add: key_free_def K1S1P1_def private_key_def sublist_code)
  have h: "\<forall>client w' creds w''.
      ClobClient (fixed_venue K1S1P1) host chain_id private_key () = (Inr client, w') \<and>
      create_or_derive_api_creds (fixed_venue K1S1P1) client w' = (Inr creds, w'')
      \<longrightarrow> key_free creds"
    using kf by (simp add: fixed_venue_def)
  have "main (fixed_venue K1S1P1) () = (Inr (), snd (main (fixed_venue K1S1P1) ()))"
    by (simp add: main_returns [OF h1 h2])
  then have ok: "fst (main (fixed_venue K1S1P1) ()) = Inr ()" by (metis fst_conv)
  from signing_key_not_printed [OF h] h1 h2 kf ok show ?thesis
    unfolding list_ex_iff by blast
qed

subsection \<open>C10: the output is a function of the credentials\<close>

text \<open>
  C10: two runs, over any two libraries and worlds, in which the derive call returns the
  same credential set write the same characters to standard output.
\<close>

theorem stdout_determined_by_creds:
  fixes lib1 :: "('e1, 'c1, 'w1) py_clob_client" and lib2 :: "('e2, 'c2, 'w2) py_clob_client"
  assumes "ClobClient lib1 host chain_id private_key w1 = (Inr client1, w1')"
    and "create_or_derive_api_creds lib1 client1 w1' = (Inr creds, w1'')"
    and "ClobClient lib2 host chain_id private_key w2 = (Inr client2, w2')"
    and "create_or_derive_api_creds lib2 client2 w2' = (Inr creds, w2'')"
  shows "stdout (snd (main lib1 w1)) = stdout (snd (main lib2 w2))"
  by (simp add: main_returns [OF assms(1,2)] main_returns [OF assms(3,4)])

text \<open>
  The statement of C10 at two different venues that both return \<open>{K1, S1, P1}\<close>.
\<close>

theorem stdout_determined_by_creds_witness:
  "ClobClient (fixed_venue K1S1P1) host chain_id private_key () = (Inr private_key, ())
   \<and> create_or_derive_api_creds (fixed_venue K1S1P1) private_key () = (Inr K1S1P1, ())
   \<and> ClobClient store_venue host chain_id private_key [(private_key, K1S1P1)]
       = (Inr private_key, [(private_key, K1S1P1)])
   \<and> create_or_derive_api_creds store_venue private_key [(private_key, K1S1P1)]
       = (Inr K1S1P1, [(private_key, K1S1P1)])
   \<and> stdout (snd (main (fixed_venue K1S1P1) ())) =
     stdout (snd (main store_venue [(private_key, K1S1P1)]))"
proof -
  have h1: "ClobClient (fixed_venue K1S1P1) host chain_id private_key () = (Inr private_key, ())"
    by (simp add: fixed_venue_def host_def chain_id_def)
  have h2: "create_or_derive_api_creds (fixed_venue K1S1P1) private_key () = (Inr K1S1P1, ())"
    by (simp add: fixed_venue_def)
  have h3: "ClobClient store_venue host chain_id private_key [(private_key, K1S1P1)]
       = (Inr private_key, [(private_key, K1S1P1)])"
    by (simp add: store_venue_def)
  have h4: "create_or_derive_api_creds store_venue private_key [(private_key, K1S1P1)]
       = (Inr K1S1P1, [(private_key, K1S1P1)])"
    by (simp add: store_venue_def)
  from stdout_determined_by_creds [OF h1 h2 h3 h4] h1 h2 h3 h4 show ?thesis by blast
qed

end
